theory Spec2Isabelle
  imports Complex_Main
begin

section \<open>Go standard library: time, durations, decimal formatting\<close>

text \<open>
  The rate limiter of \<^verbatim>\<open>middleware/ratelimit.go\<close> reads the wall clock, truncates it to a
  window and prints integers and durations into response headers. These library
  functions are modelled here on mathematical integers:
  \<^item> a \<^verbatim>\<open>time.Duration\<close> is a number of nanoseconds (an int64 in Go);
  \<^item> a \<^verbatim>\<open>time.Time\<close> is the number of nanoseconds since Go's zero time
    (January 1, year 1, 00:00:00 UTC), the origin \<^verbatim>\<open>Truncate\<close> counts from;
  \<^item> Go's \<^verbatim>\<open>int\<close> and \<^verbatim>\<open>int64\<close> are taken to be 64 bits wide (a 64-bit platform), so
    that \<^verbatim>\<open>int(count)\<close> is the identity. The limiter does arithmetic on them in one
    place, \<^verbatim>\<open>config.MaxRequests - int(count)\<close>, reached only when the count is at most
    \<^verbatim>\<open>MaxRequests\<close>. The model computes it on the integers, which is what Go computes
    as long as the difference is below \<open>2 ^ 63\<close>, as it is for every counter that is
    not negative.
\<close>

type_synonym Duration = int
type_synonym Time = int

definition Microsecond :: Duration where
  "Microsecond = 1000"

definition Millisecond :: Duration where
  "Millisecond = 1000000"

definition Second :: Duration where
  "Second = 1000000000"

definition Minute :: Duration where
  "Minute = 60 * Second"

definition maxDuration :: Duration where
  "maxDuration = 2 ^ 63 - 1"

definition minDuration :: Duration where
  "minDuration = - (2 ^ 63)"

text \<open>Seconds between the zero time and the Unix epoch (\<^verbatim>\<open>unixToInternal\<close> in package time).\<close>

definition unixToInternal :: int where
  "unixToInternal = 62135596800"

text \<open>\<^verbatim>\<open>t.Unix()\<close>: whole seconds since the Unix epoch, rounded down.\<close>

definition Time_Unix :: "Time \<Rightarrow> int" where
  "Time_Unix t = t div Second - unixToInternal"

text \<open>
  \<^verbatim>\<open>t.Truncate(d)\<close> rounds \<open>t\<close> down to a multiple of \<open>d\<close> since the zero time; for
  \<open>d \<le> 0\<close> it returns \<open>t\<close> unchanged.
\<close>

definition Time_Truncate :: "Time \<Rightarrow> Duration \<Rightarrow> Time" where
  "Time_Truncate t d = (if d \<le> 0 then t else t - t mod d)"

definition Time_Add :: "Time \<Rightarrow> Duration \<Rightarrow> Time" where
  "Time_Add t d = t + d"

text \<open>\<^verbatim>\<open>t.Sub(u)\<close> saturates at the largest and smallest duration.\<close>

definition Time_Sub :: "Time \<Rightarrow> Time \<Rightarrow> Duration" where
  "Time_Sub t u =
     (let d = t - u
      in if d > maxDuration then maxDuration
         else if d < minDuration then minDuration
         else d)"

text \<open>
  \<^verbatim>\<open>int(d.Seconds())\<close>: the duration in seconds as a float64, converted to an integer by
  truncation towards zero. The float64 value is exact enough for the truncation to
  agree with integer division whenever \<open>\<bar>d\<bar>\<close> is below \<open>2 ^ 24\<close> seconds (194 days);
  the model is the integer division.
\<close>

definition int_Seconds :: "Duration \<Rightarrow> int" where
  "int_Seconds d = (if 0 \<le> d then d div Second else - ((- d) div Second))"

text \<open>
  \<^verbatim>\<open>fmtInt\<close> of package time and the decimal digits of \<^verbatim>\<open>strconv.Itoa\<close> and
  \<^verbatim>\<open>strconv.FormatInt(_, 10)\<close>.
\<close>

definition digitChar :: "nat \<Rightarrow> char" where
  "digitChar d = ''0123456789'' ! (d mod 10)"

fun fmtDigits :: "nat \<Rightarrow> string" where
  "fmtDigits v = (if v = 0 then [] else fmtDigits (v div 10) @ [digitChar (v mod 10)])"

declare fmtDigits.simps [simp del]

definition fmtInt :: "nat \<Rightarrow> string" where
  "fmtInt v = (if v = 0 then ''0'' else fmtDigits v)"

definition Itoa :: "int \<Rightarrow> string" where
  "Itoa i = (if i < 0 then CHR ''-'' # fmtInt (nat (- i)) else fmtInt (nat i))"

definition FormatInt10 :: "int \<Rightarrow> string" where
  "FormatInt10 i = Itoa i"

text \<open>
  \<^verbatim>\<open>fmtFrac(buf, v, prec)\<close> of package time: the fraction of \<open>v / 10 ^ prec\<close> without
  trailing zeros (and without the point when the fraction is zero), and \<open>v div 10 ^ prec\<close>.
  The loop runs \<open>prec\<close> times; \<open>acc\<close> is the tail of the buffer written so far.
\<close>

fun fmtFrac_loop :: "nat \<Rightarrow> nat \<Rightarrow> bool \<Rightarrow> string \<Rightarrow> string \<times> nat" where
  "fmtFrac_loop 0 v print acc = (if print then CHR ''.'' # acc else acc, v)"
| "fmtFrac_loop (Suc i) v print acc =
     (let digit = v mod 10;
          print' = (print \<or> digit \<noteq> 0)
      in fmtFrac_loop i (v div 10) print' (if print' then digitChar digit # acc else acc))"

definition fmtFrac :: "nat \<Rightarrow> nat \<Rightarrow> string \<times> nat" where
  "fmtFrac v prec = fmtFrac_loop prec v False []"

text \<open>
  \<^verbatim>\<open>d.String()\<close>, as in \<^verbatim>\<open>Duration.format\<close>: \<^verbatim>\<open>1m0s\<close>, \<^verbatim>\<open>1.5s\<close>, \<^verbatim>\<open>250ms\<close>. The micro sign
  is the two bytes C2 B5.
\<close>

definition Duration_String :: "Duration \<Rightarrow> string" where
  "Duration_String d =
     (let u = nat \<bar>d\<bar>;
          neg = (d < 0);
          s = (if u < nat Second then
                 (if u = 0 then ''0s''
                  else
                    let prec = (if u < nat Microsecond then 0
                                else if u < nat Millisecond then 3 else 6);
                        unit = (if u < nat Microsecond then ''ns''
                                else if u < nat Millisecond then [CHR 0xC2, CHR 0xB5, CHR ''s'']
                                else ''ms'');
                        (frac, u1) = fmtFrac u prec
                    in fmtInt u1 @ frac @ unit)
               else
                 let (frac, u1) = fmtFrac u 9;
                     secs = fmtInt (u1 mod 60) @ frac @ ''s'';
                     u2 = u1 div 60
                 in if u2 > 0 then
                      (let mins = fmtInt (u2 mod 60) @ ''m'';
                           u3 = u2 div 60
                       in (if u3 > 0 then fmtInt u3 @ ''h'' else []) @ mins @ secs)
                    else secs)
      in if neg then CHR ''-'' # s else s)"

section \<open>The shared counter store: \<^verbatim>\<open>cache.Client\<close>\<close>

text \<open>
  \<^verbatim>\<open>cache/cache.go\<close> wraps a Redis client in a circuit breaker. The limiter uses two of
  its methods, \<^verbatim>\<open>IncrementBy\<close> and \<^verbatim>\<open>Expire\<close>. Each of them goes through the breaker to
  Redis on its own and can fail on its own. The model of a client is the state of the
  counters it reaches: the counters, the expirations that were set for them, the
  sequence of calls made so far (\<open>calls\<close>, a ghost trace that makes "no counter is read
  or written" a statement about the state), and which calls fail: \<open>failing cl n\<close> says
  that the call number \<open>n\<close> made to this client (counted from 0) does not get through,
  because Redis does not answer or the breaker is open. The clock-driven removal of
  expired keys by Redis is not part of the model.
\<close>

datatype redis_call = IncrBy string int | ExpireKey string Duration

record Client =
  failing :: "nat \<Rightarrow> bool"
  counters :: "string \<rightharpoonup> int"
  expirations :: "string \<rightharpoonup> Duration"
  calls :: "redis_call list"

text \<open>
  \<^verbatim>\<open>IncrementBy(ctx, key, delta)\<close> returns the new count, or an error when the call fails
  (Redis itself refuses an increment that would leave the int64 range).
\<close>

definition IncrementBy :: "Client \<Rightarrow> string \<Rightarrow> int \<Rightarrow> (string + int) \<times> Client" where
  "IncrementBy cl key delta =
     (let cl1 = cl\<lparr>calls := calls cl @ [IncrBy key delta]\<rparr>;
          v = (case counters cl key of None \<Rightarrow> 0 | Some c \<Rightarrow> c) + delta
      in if failing cl (length (calls cl)) then (Inl ''failed to increment by'', cl1)
         else if - (2 ^ 63) \<le> v \<and> v < 2 ^ 63
         then (Inr v, cl1\<lparr>counters := (counters cl)(key \<mapsto> v)\<rparr>)
         else (Inl ''failed to increment by'', cl1))"

text \<open>
  \<^verbatim>\<open>Expire(ctx, key, expiration)\<close> returns an error when the call fails; the limiter
  ignores what it returns.
\<close>

definition Expire :: "Client \<Rightarrow> string \<Rightarrow> Duration \<Rightarrow> string option \<times> Client" where
  "Expire cl key expiration =
     (let cl1 = cl\<lparr>calls := calls cl @ [ExpireKey key expiration]\<rparr>
      in if failing cl (length (calls cl)) then (Some ''failed to set expiration'', cl1)
         else
           (case counters cl key of
              Some v \<Rightarrow> (None, cl1\<lparr>expirations := (expirations cl)(key \<mapsto> expiration)\<rparr>)
            | None \<Rightarrow> (None, cl1)))"

section \<open>Requests, responses and the rate-limited error\<close>

text \<open>
  What the limiter reads of a \<^verbatim>\<open>gin.Context\<close>: the request path, the client address and
  the values the JWT middleware of \<^verbatim>\<open>middleware/auth.go\<close> stored in the request context
  (absent: the empty string, or no claims).
\<close>

record JWTClaims =
  Roles :: "string list"

record Request =
  Path :: string
  ClientIP :: string
  ctxUserID :: string
  ctxTenantID :: string
  ctxClaims :: "JWTClaims option"

definition GetClaimsFromContext :: "Request \<Rightarrow> JWTClaims option" where
  "GetClaimsFromContext c = ctxClaims c"

definition GetUserIDFromContext :: "Request \<Rightarrow> string" where
  "GetUserIDFromContext c = ctxUserID c"

definition GetTenantIDFromContext :: "Request \<Rightarrow> string" where
  "GetTenantIDFromContext c = ctxTenantID c"

text \<open>\<^verbatim>\<open>errors.NewRateLimitedError(retryAfter)\<close>, the body of a 429 response.\<close>

record Error =
  Code :: string
  Message :: string
  HTTPCode :: int
  Details :: "(string \<times> int) list"

definition StatusTooManyRequests :: int where
  "StatusTooManyRequests = 429"

definition NewRateLimitedError :: "int \<Rightarrow> Error" where
  "NewRateLimitedError retryAfter =
     \<lparr>Code = ''RATE_LIMITED'',
      Message = ''Rate limit exceeded'',
      HTTPCode = StatusTooManyRequests,
      Details = [(''retry_after'', retryAfter)]\<rparr>"

text \<open>
  What a handler does to the response through the \<^verbatim>\<open>gin.Context\<close>: the headers it sets
  (in the order of the \<^verbatim>\<open>c.Header\<close> calls), the status and body of \<^verbatim>\<open>c.JSON\<close>, whether it
  passed the request on (\<^verbatim>\<open>c.Next()\<close>) and whether it cut the chain (\<^verbatim>\<open>c.Abort()\<close>).
\<close>

record Response =
  headers :: "(string \<times> string) list"
  status :: "int option"
  body :: "Error option"
  passedOn :: bool
  aborted :: bool

definition untouched :: Response where
  "untouched = \<lparr>headers = [], status = None, body = None, passedOn = False, aborted = False\<rparr>"

definition c_Header :: "string \<Rightarrow> string \<Rightarrow> Response \<Rightarrow> Response" where
  "c_Header k v c = c\<lparr>headers := headers c @ [(k, v)]\<rparr>"

definition c_JSON :: "int \<Rightarrow> Error \<Rightarrow> Response \<Rightarrow> Response" where
  "c_JSON code obj c = c\<lparr>status := Some code, body := Some obj\<rparr>"

definition c_Abort :: "Response \<Rightarrow> Response" where
  "c_Abort c = c\<lparr>aborted := True\<rparr>"

definition c_Next :: "Response \<Rightarrow> Response" where
  "c_Next c = c\<lparr>passedOn := True\<rparr>"

text \<open>A handler either panics with a message or returns.\<close>

datatype 'a result = Panic string | Done 'a

section \<open>Configuration and key functions\<close>

text \<open>
  \<^verbatim>\<open>RedisClient\<close> is a pointer: \<open>None\<close> is nil, \<open>Some r\<close> names a client, whose state the
  handlers receive and return.
\<close>

record RateLimitConfig =
  RequestsPerSecond :: int
  BurstSize :: int
  WindowSize :: Duration
  MaxRequests :: int
  KeyFunc :: "(Request \<Rightarrow> string) option"
  SkipPaths :: "string list"
  UseRedis :: bool
  RedisClient :: "nat option"

definition DefaultKeyFunc :: "Request \<Rightarrow> string" where
  "DefaultKeyFunc c = ClientIP c"

definition UserKeyFunc :: "Request \<Rightarrow> string" where
  "UserKeyFunc c =
     (let userID = GetUserIDFromContext c
      in if userID \<noteq> [] then ''user:'' @ userID else ClientIP c)"

definition TenantKeyFunc :: "Request \<Rightarrow> string" where
  "TenantKeyFunc c =
     (let tenantID = GetTenantIDFromContext c
      in if tenantID \<noteq> [] then ''tenant:'' @ tenantID else ClientIP c)"

text \<open>
  The loop every handler starts with: is the request path one of \<^verbatim>\<open>config.SkipPaths\<close>?
\<close>

fun skipsPath :: "string list \<Rightarrow> string \<Rightarrow> bool" where
  "skipsPath [] p = False"
| "skipsPath (path # paths) p = (if p = path then True else skipsPath paths p)"

text \<open>Calling a nil function value panics.\<close>

definition nilCall :: string where
  "nilCall = ''invalid memory address or nil pointer dereference''"

section \<open>The distributed limiters\<close>

text \<open>
  \<^verbatim>\<open>SlidingWindowRateLimit(config)\<close>: the constructor panics without a Redis client,
  fills in the default key function and window, and returns the handler, a closure
  over the configuration. The model returns the captured configuration;
  \<open>SlidingWindow_handler\<close> is the closure's body, run on a request at time \<open>now\<close> (the
  one \<^verbatim>\<open>time.Now()\<close> it reads) against the client's state.
\<close>

definition SlidingWindowRateLimit :: "RateLimitConfig \<Rightarrow> RateLimitConfig result" where
  "SlidingWindowRateLimit config =
     (if RedisClient config = None
      then Panic ''Redis client is required for sliding window rate limiting''
      else
        let config1 = (if KeyFunc config = None
                       then config\<lparr>KeyFunc := Some DefaultKeyFunc\<rparr> else config);
            config2 = (if WindowSize config1 = 0
                       then config1\<lparr>WindowSize := Minute\<rparr> else config1)
        in Done config2)"

definition SlidingWindow_handler ::
  "RateLimitConfig \<Rightarrow> Request \<Rightarrow> Time \<Rightarrow> Client \<Rightarrow> Response result \<times> Client" where
  "SlidingWindow_handler config c now cl =
     (if skipsPath (SkipPaths config) (Path c) then (Done (c_Next untouched), cl)
      else case KeyFunc config of
        None \<Rightarrow> (Panic nilCall, cl)
      | Some keyFunc \<Rightarrow>
         (let key = ''ratelimit:'' @ keyFunc c;
              window = Time_Truncate now (WindowSize config);
              countKey = key @ '':'' @ Itoa (Time_Unix window)
          in case IncrementBy cl countKey 1 of
               (Inl err, cl1) \<Rightarrow> (Done (c_Next untouched), cl1)
             | (Inr count, cl1) \<Rightarrow>
                (let cl2 = (if count = 1
                            then snd (Expire cl1 countKey (WindowSize config)) else cl1)
                 in if count > MaxRequests config then
                      (let remaining = 0;
                           reset = Time_Unix (Time_Add window (WindowSize config));
                           c1 = c_Header ''X-RateLimit-Limit'' (Itoa (MaxRequests config)) untouched;
                           c2 = c_Header ''X-RateLimit-Remaining'' (Itoa remaining) c1;
                           c3 = c_Header ''X-RateLimit-Reset'' (FormatInt10 reset) c2;
                           c4 = c_Header ''X-RateLimit-Window'' (Duration_String (WindowSize config)) c3;
                           retryAfter =
                             int_Seconds (Time_Sub (Time_Add window (WindowSize config)) now) + 1;
                           c5 = c_JSON StatusTooManyRequests (NewRateLimitedError retryAfter) c4
                       in (Done (c_Abort c5), cl2))
                    else
                      (let remaining = MaxRequests config - count;
                           reset = Time_Unix (Time_Add window (WindowSize config));
                           c1 = c_Header ''X-RateLimit-Limit'' (Itoa (MaxRequests config)) untouched;
                           c2 = c_Header ''X-RateLimit-Remaining'' (Itoa remaining) c1;
                           c3 = c_Header ''X-RateLimit-Reset'' (FormatInt10 reset) c2;
                           c4 = c_Header ''X-RateLimit-Window'' (Duration_String (WindowSize config)) c3
                       in (Done (c_Next c4), cl2)))))"

text \<open>\<^verbatim>\<open>FixedWindowRateLimit(config)\<close> and its handler.\<close>

definition FixedWindowRateLimit :: "RateLimitConfig \<Rightarrow> RateLimitConfig result" where
  "FixedWindowRateLimit config =
     (if RedisClient config = None
      then Panic ''Redis client is required for fixed window rate limiting''
      else
        let config1 = (if KeyFunc config = None
                       then config\<lparr>KeyFunc := Some DefaultKeyFunc\<rparr> else config);
            config2 = (if WindowSize config1 = 0
                       then config1\<lparr>WindowSize := Minute\<rparr> else config1)
        in Done config2)"

definition FixedWindow_handler ::
  "RateLimitConfig \<Rightarrow> Request \<Rightarrow> Time \<Rightarrow> Client \<Rightarrow> Response result \<times> Client" where
  "FixedWindow_handler config c now cl =
     (if skipsPath (SkipPaths config) (Path c) then (Done (c_Next untouched), cl)
      else case KeyFunc config of
        None \<Rightarrow> (Panic nilCall, cl)
      | Some keyFunc \<Rightarrow>
         (let key = ''ratelimit:'' @ keyFunc c;
              window = Time_Truncate now (WindowSize config);
              windowKey = key @ '':'' @ Itoa (Time_Unix window)
          in case IncrementBy cl windowKey 1 of
               (Inl err, cl1) \<Rightarrow> (Done (c_Next untouched), cl1)
             | (Inr count, cl1) \<Rightarrow>
                (let cl2 = (if count = 1
                            then snd (Expire cl1 windowKey (WindowSize config)) else cl1)
                 in if count > MaxRequests config then
                      (let remaining = 0;
                           reset = Time_Unix (Time_Add window (WindowSize config));
                           c1 = c_Header ''X-RateLimit-Limit'' (Itoa (MaxRequests config)) untouched;
                           c2 = c_Header ''X-RateLimit-Remaining'' (Itoa remaining) c1;
                           c3 = c_Header ''X-RateLimit-Reset'' (FormatInt10 reset) c2;
                           c4 = c_Header ''X-RateLimit-Window'' (Duration_String (WindowSize config)) c3;
                           retryAfter =
                             int_Seconds (Time_Sub (Time_Add window (WindowSize config)) now) + 1;
                           c5 = c_JSON StatusTooManyRequests (NewRateLimitedError retryAfter) c4
                       in (Done (c_Abort c5), cl2))
                    else
                      (let remaining = MaxRequests config - count;
                           reset = Time_Unix (Time_Add window (WindowSize config));
                           c1 = c_Header ''X-RateLimit-Limit'' (Itoa (MaxRequests config)) untouched;
                           c2 = c_Header ''X-RateLimit-Remaining'' (Itoa remaining) c1;
                           c3 = c_Header ''X-RateLimit-Reset'' (FormatInt10 reset) c2;
                           c4 = c_Header ''X-RateLimit-Window'' (Duration_String (WindowSize config)) c3
                       in (Done (c_Next c4), cl2)))))"

section \<open>The token bucket of \<^verbatim>\<open>golang.org/x/time/rate\<close>\<close>

text \<open>
  The in-process limiter keeps one \<^verbatim>\<open>rate.Limiter\<close> per key. A limiter holds a rate
  (\<open>limit\<close>, events per second), a capacity (\<open>burst\<close>), the tokens it had at time \<open>lastT\<close>
  (the field \<^verbatim>\<open>last\<close>), and the time of the latest event. Tokens are float64 in Go and
  rationals here: the two agree on the small whole numbers of tokens and the whole
  seconds the statements below evaluate. A rate made from an \<^verbatim>\<open>int\<close> is never the
  infinite rate \<^verbatim>\<open>rate.Inf\<close>, so that branch of the library is left out. A new limiter
  starts with a full bucket, as in the current version of the library; earlier
  versions start it empty at the zero time and fill it at the first use, which comes
  to the same whenever the rate is positive.
\<close>

record Limiter =
  limit :: rat
  burst :: int
  tokens :: rat
  lastT :: Time
  lastEvent :: Time

record Reservation =
  ok :: bool
  timeToAct :: Time

definition InfDuration :: Duration where
  "InfDuration = maxDuration"

definition NewLimiter :: "rat \<Rightarrow> int \<Rightarrow> Limiter" where
  "NewLimiter r b = \<lparr>limit = r, burst = b, tokens = of_int b, lastT = 0, lastEvent = 0\<rparr>"

text \<open>Conversion of a float64 to a duration truncates towards zero.\<close>

definition truncRat :: "rat \<Rightarrow> int" where
  "truncRat x = (if 0 \<le> x then \<lfloor>x\<rfloor> else - \<lfloor>- x\<rfloor>)"

definition durationFromTokens :: "rat \<Rightarrow> rat \<Rightarrow> Duration" where
  "durationFromTokens lm toks =
     (if lm \<le> 0 then InfDuration
      else
        let duration = (toks / lm) * of_int Second
        in if duration > of_int maxDuration then InfDuration else truncRat duration)"

definition tokensFromDuration :: "rat \<Rightarrow> Duration \<Rightarrow> rat" where
  "tokensFromDuration lm d = (if lm \<le> 0 then 0 else (of_int d / of_int Second) * lm)"

text \<open>\<^verbatim>\<open>lim.advance(t)\<close>: the tokens at time \<open>t\<close>, capped at the burst; the limiter is not changed.\<close>

definition advance :: "Limiter \<Rightarrow> Time \<Rightarrow> Time \<times> rat" where
  "advance lm t =
     (let last = (if t < lastT lm then t else lastT lm);
          elapsed = Time_Sub t last;
          delta = tokensFromDuration (limit lm) elapsed;
          toks = tokens lm + delta;
          toks1 = (if toks > of_int (burst lm) then of_int (burst lm) else toks)
      in (t, toks1))"

text \<open>
  \<^verbatim>\<open>lim.reserveN(t, n, maxFutureReserve)\<close>: take \<open>n\<close> tokens, going into debt if the wait
  this costs is at most \<open>maxFutureReserve\<close>. The limiter changes only when the
  reservation is granted.
\<close>

definition reserveN :: "Limiter \<Rightarrow> Time \<Rightarrow> int \<Rightarrow> Duration \<Rightarrow> Reservation \<times> Limiter" where
  "reserveN lm t n maxFutureReserve =
     (let (t1, toks0) = advance lm t;
          toks = toks0 - of_int n;
          waitDuration = (if toks < 0 then durationFromTokens (limit lm) (- toks) else 0);
          granted = (n \<le> burst lm \<and> waitDuration \<le> maxFutureReserve)
      in if granted
         then (\<lparr>ok = True, timeToAct = Time_Add t1 waitDuration\<rparr>,
               lm\<lparr>tokens := toks, lastT := t1, lastEvent := Time_Add t1 waitDuration\<rparr>)
         else (\<lparr>ok = False, timeToAct = 0\<rparr>, lm))"

text \<open>\<^verbatim>\<open>lim.Allow()\<close> at time \<open>t\<close>: one token, no waiting.\<close>

definition Allow :: "Limiter \<Rightarrow> Time \<Rightarrow> bool \<times> Limiter" where
  "Allow lm t = (let (r, lm1) = reserveN lm t 1 0 in (ok r, lm1))"

text \<open>\<^verbatim>\<open>lim.Reserve()\<close> at time \<open>t\<close>: one token, however long the wait.\<close>

definition Reserve :: "Limiter \<Rightarrow> Time \<Rightarrow> Reservation \<times> Limiter" where
  "Reserve lm t = reserveN lm t 1 InfDuration"

text \<open>\<^verbatim>\<open>r.Delay()\<close> read at time \<open>t\<close>.\<close>

definition Delay :: "Reservation \<Rightarrow> Time \<Rightarrow> Duration" where
  "Delay r t =
     (if \<not> ok r then InfDuration
      else let delay = Time_Sub (timeToAct r) t in if delay < 0 then 0 else delay)"

section \<open>The in-process limiter\<close>

text \<open>
  \<^verbatim>\<open>TokenBucketRateLimit(config)\<close> makes an empty map of limiters and returns the handler,
  a closure over the configuration and the map. The handler reads the clock up to four
  times: in \<^verbatim>\<open>Allow\<close>, for the reset header, in \<^verbatim>\<open>Reserve\<close> and in \<^verbatim>\<open>Delay\<close>; \<open>clock i\<close> is
  the \<open>i\<close>-th reading of a request.
\<close>

definition TokenBucketRateLimit :: "RateLimitConfig \<Rightarrow> RateLimitConfig \<times> (string \<rightharpoonup> Limiter)" where
  "TokenBucketRateLimit config =
     (let limiters = Map.empty;
          config1 = (if KeyFunc config = None
                     then config\<lparr>KeyFunc := Some DefaultKeyFunc\<rparr> else config)
      in (config1, limiters))"

definition TokenBucket_handler ::
  "RateLimitConfig \<Rightarrow> Request \<Rightarrow> (nat \<Rightarrow> Time) \<Rightarrow> (string \<rightharpoonup> Limiter)
     \<Rightarrow> Response result \<times> (string \<rightharpoonup> Limiter)" where
  "TokenBucket_handler config c clock limiters =
     (if skipsPath (SkipPaths config) (Path c) then (Done (c_Next untouched), limiters)
      else case KeyFunc config of
        None \<Rightarrow> (Panic nilCall, limiters)
      | Some keyFunc \<Rightarrow>
         (let key = keyFunc c;
              limiter = (case limiters key of
                           Some l \<Rightarrow> l
                         | None \<Rightarrow> NewLimiter (of_int (RequestsPerSecond config)) (BurstSize config));
              (allowed, limiter1) = Allow limiter (clock 0)
          in if \<not> allowed then
               (let c1 = c_Header ''X-RateLimit-Limit'' (Itoa (RequestsPerSecond config)) untouched;
                    c2 = c_Header ''X-RateLimit-Remaining'' ''0'' c1;
                    c3 = c_Header ''X-RateLimit-Reset''
                           (FormatInt10 (Time_Unix (Time_Add (clock 1) Second))) c2;
                    (r, limiter2) = Reserve limiter1 (clock 2);
                    retryAfter = int_Seconds (Delay r (clock 3)) + 1;
                    c4 = c_JSON StatusTooManyRequests (NewRateLimitedError retryAfter) c3
                in (Done (c_Abort c4), limiters(key \<mapsto> limiter2)))
             else
               (let c1 = c_Header ''X-RateLimit-Limit'' (Itoa (RequestsPerSecond config)) untouched
                in (Done (c_Next c1), limiters(key \<mapsto> limiter1)))))"

section \<open>Limits by user type\<close>

text \<open>The zero value of \<^verbatim>\<open>RateLimitConfig\<close>, to which \<^verbatim>\<open>selectedConfig\<close> is initialised.\<close>

definition zeroConfig :: RateLimitConfig where
  "zeroConfig =
     \<lparr>RequestsPerSecond = 0, BurstSize = 0, WindowSize = 0, MaxRequests = 0,
      KeyFunc = None, SkipPaths = [], UseRedis = False, RedisClient = None\<rparr>"

text \<open>The loop over \<^verbatim>\<open>claims.Roles\<close>: the first role with an entry in the map wins.\<close>

fun rolesLoop ::
  "(string \<rightharpoonup> RateLimitConfig) \<Rightarrow> string list \<Rightarrow> RateLimitConfig \<Rightarrow> RateLimitConfig" where
  "rolesLoop config [] selectedConfig = selectedConfig"
| "rolesLoop config (role # roles) selectedConfig =
     (case config role of
        Some cfg \<Rightarrow> cfg
      | None \<Rightarrow> rolesLoop config roles selectedConfig)"

text \<open>The configuration \<^verbatim>\<open>PerUserRateLimit\<close> applies to a request.\<close>

definition selectConfig ::
  "(string \<rightharpoonup> RateLimitConfig) \<Rightarrow> RateLimitConfig \<Rightarrow> Request \<Rightarrow> RateLimitConfig" where
  "selectConfig config defaultConfig c =
     (let selectedConfig =
            (case GetClaimsFromContext c of
               Some claims \<Rightarrow> rolesLoop config (Roles claims) zeroConfig
             | None \<Rightarrow> zeroConfig)
      in if MaxRequests selectedConfig = 0 then defaultConfig else selectedConfig)"

text \<open>
  \<^verbatim>\<open>PerUserRateLimit(config, defaultConfig)\<close> checks nothing: it returns the handler, a
  closure over the map and the default.
\<close>

definition PerUserRateLimit ::
  "(string \<rightharpoonup> RateLimitConfig) \<Rightarrow> RateLimitConfig
     \<Rightarrow> ((string \<rightharpoonup> RateLimitConfig) \<times> RateLimitConfig) result" where
  "PerUserRateLimit config defaultConfig = Done (config, defaultConfig)"

text \<open>
  The handler \<^verbatim>\<open>PerUserRateLimit(config, defaultConfig)\<close> returns. It keeps no state of
  its own: on each request it selects a configuration, constructs a fixed-window or
  token-bucket middleware from it and runs that on the request. \<open>cl\<close> is the state of
  the client the selected configuration points to.
\<close>

definition PerUser_handler ::
  "(string \<rightharpoonup> RateLimitConfig) \<Rightarrow> RateLimitConfig \<Rightarrow> Request \<Rightarrow> (nat \<Rightarrow> Time) \<Rightarrow> Client
     \<Rightarrow> Response result \<times> Client" where
  "PerUser_handler config defaultConfig c clock cl =
     (let selectedConfig = selectConfig config defaultConfig c
      in if UseRedis selectedConfig then
           (case FixedWindowRateLimit selectedConfig of
              Panic msg \<Rightarrow> (Panic msg, cl)
            | Done captured \<Rightarrow> FixedWindow_handler captured c (clock 0) cl)
         else
           (let (captured, limiters) = TokenBucketRateLimit selectedConfig
            in (fst (TokenBucket_handler captured c clock limiters), cl)))"

text \<open>A sequence of requests through one handler, oldest first, with the answers.\<close>

fun TokenBucket_run ::
  "RateLimitConfig \<Rightarrow> (Request \<times> (nat \<Rightarrow> Time)) list \<Rightarrow> (string \<rightharpoonup> Limiter)
     \<Rightarrow> Response result list" where
  "TokenBucket_run config [] limiters = []"
| "TokenBucket_run config ((c, clock) # rest) limiters =
     (let (answer, limiters1) = TokenBucket_handler config c clock limiters
      in answer # TokenBucket_run config rest limiters1)"

fun PerUser_run ::
  "(string \<rightharpoonup> RateLimitConfig) \<Rightarrow> RateLimitConfig \<Rightarrow> (Request \<times> (nat \<Rightarrow> Time)) list \<Rightarrow> Client
     \<Rightarrow> Response result list" where
  "PerUser_run config defaultConfig [] cl = []"
| "PerUser_run config defaultConfig ((c, clock) # rest) cl =
     (let (answer, cl1) = PerUser_handler config defaultConfig c clock cl
      in answer # PerUser_run config defaultConfig rest cl1)"

text \<open>Was the request passed on to the next handler, or answered with a 429?\<close>

definition admitted :: "Response result \<Rightarrow> bool" where
  "admitted a = (case a of Done r \<Rightarrow> passedOn r \<and> \<not> aborted r | Panic msg \<Rightarrow> False)"

definition rejected :: "Response result \<Rightarrow> bool" where
  "rejected a =
     (case a of
        Done r \<Rightarrow> aborted r \<and> \<not> passedOn r \<and> status r = Some StatusTooManyRequests
      | Panic msg \<Rightarrow> False)"

section \<open>Example inputs\<close>

text \<open>
  A request from 1.2.3.4 at Unix time 1700000030, a clock that stands still during a
  request, and three stores with no counters: one where every call gets through, one
  where none does, and one where only the second call (the expiry after a first
  increment) fails.
\<close>

definition exampleTime :: Time where
  "exampleTime = (unixToInternal + 1700000030) * Second"

definition frozenClock :: "Time \<Rightarrow> nat \<Rightarrow> Time" where
  "frozenClock t i = t"

definition exampleRequest :: Request where
  "exampleRequest =
     \<lparr>Path = ''/api/records'', ClientIP = ''1.2.3.4'', ctxUserID = [], ctxTenantID = [],
      ctxClaims = None\<rparr>"

definition healthRequest :: Request where
  "healthRequest = exampleRequest\<lparr>Path := ''/health''\<rparr>"

definition adminRequest :: Request where
  "adminRequest = exampleRequest\<lparr>ctxClaims := Some \<lparr>Roles = [''viewer'', ''admin'']\<rparr>\<rparr>"

definition emptyClient :: Client where
  "emptyClient =
     \<lparr>failing = (\<lambda>n. False), counters = Map.empty, expirations = Map.empty, calls = []\<rparr>"

definition downClient :: Client where
  "downClient =
     \<lparr>failing = (\<lambda>n. True), counters = Map.empty, expirations = Map.empty, calls = []\<rparr>"


text \<open>
  A distributed policy of three requests per window that leaves the key function and
  the window to their defaults, and the configuration its constructors capture.
\<close>

definition windowPolicy :: RateLimitConfig where
  "windowPolicy =
     \<lparr>RequestsPerSecond = 0, BurstSize = 0, WindowSize = 0, MaxRequests = 3,
      KeyFunc = None, SkipPaths = [''/health'', ''/metrics''], UseRedis = True,
      RedisClient = Some 0\<rparr>"

definition windowCaptured :: RateLimitConfig where
  "windowCaptured = windowPolicy\<lparr>KeyFunc := Some DefaultKeyFunc, WindowSize := Minute\<rparr>"

text \<open>
  The minute of the example time starts at Unix time 1699999980 and ends at
  1700000040.
\<close>

definition exampleKey :: string where
  "exampleKey = ''ratelimit:1.2.3.4:1699999980''"

text \<open>The same policy with the store reference missing.\<close>

definition storelessPolicy :: RateLimitConfig where
  "storelessPolicy = windowPolicy\<lparr>RedisClient := None\<rparr>"

text \<open>
  In-process policies: one request per second with a burst of one or of two, and a
  more generous one for administrators. None of them sets \<^verbatim>\<open>MaxRequests\<close>, which
  the token bucket does not read.
\<close>

definition bucketPolicy :: RateLimitConfig where
  "bucketPolicy =
     \<lparr>RequestsPerSecond = 1, BurstSize = 1, WindowSize = 0, MaxRequests = 0,
      KeyFunc = None, SkipPaths = [''/health''], UseRedis = False, RedisClient = None\<rparr>"

definition bucketCaptured :: RateLimitConfig where
  "bucketCaptured = bucketPolicy\<lparr>KeyFunc := Some DefaultKeyFunc\<rparr>"

definition burstTwoCaptured :: RateLimitConfig where
  "burstTwoCaptured = bucketCaptured\<lparr>BurstSize := 2\<rparr>"

definition adminPolicy :: RateLimitConfig where
  "adminPolicy = bucketPolicy\<lparr>RequestsPerSecond := 100, BurstSize := 200\<rparr>"

text \<open>
  A distributed configuration with a negative window and no budget, as its constructor
  captures it (a window that is not zero is kept as it is).
\<close>

definition negativeWindowCaptured :: RateLimitConfig where
  "negativeWindowCaptured =
     windowCaptured\<lparr>WindowSize := - (5 * Second), MaxRequests := 0\<rparr>"

section \<open>Basic facts\<close>

lemma skipsPath_iff: "skipsPath paths p \<longleftrightarrow> p \<in> set paths"
  by (induction paths) auto

text \<open>
  The window start: for a positive window it is the multiple of the window size at or
  before the time, less than one window away from it.
\<close>

lemma Time_Truncate_window:
  assumes "0 < d"
  shows "d dvd Time_Truncate t d" and "Time_Truncate t d \<le> t" and "t < Time_Truncate t d + d"
proof -
  have eq: "Time_Truncate t d = t - t mod d"
    using assms by (simp add: Time_Truncate_def)
  show "d dvd Time_Truncate t d"
    unfolding eq by (simp add: minus_mod_eq_mult_div)
  show "Time_Truncate t d \<le> t"
    unfolding eq using assms by simp
  show "t < Time_Truncate t d + d"
    unfolding eq using pos_mod_bound [OF assms, of t] by simp
qed

lemma nine_Suc: "(9::nat) = Suc (Suc (Suc (Suc (Suc (Suc (Suc (Suc (Suc 0))))))))"
  by simp

lemma fmtFrac_Minute: "fmtFrac 60000000000 9 = ([], 60)"
  unfolding fmtFrac_def nine_Suc by (simp add: Let_def)

lemma fmtInt_0: "fmtInt 0 = ''0''"
  by (simp add: fmtInt_def)

lemma fmtInt_1: "fmtInt 1 = ''1''"
  by (simp add: fmtInt_def fmtDigits.simps [of "Suc 0"] fmtDigits.simps [of 0] digitChar_def)

lemma Duration_String_Minute: "Duration_String Minute = ''1m0s''"
  using fmtInt_1 by (simp add: Duration_String_def Minute_def Second_def fmtFrac_Minute fmtInt_0)

text \<open>The example time in its minute, and the decimal numbers of the example.\<close>

lemma exampleTime_window:
  "Time_Truncate exampleTime Minute = (unixToInternal + 1699999980) * Second"
  by (simp add: Time_Truncate_def exampleTime_def Minute_def Second_def unixToInternal_def)

lemma exampleTime_window_Unix:
  "Time_Unix (Time_Truncate exampleTime Minute) = 1699999980"
  "Time_Unix (Time_Add (Time_Truncate exampleTime Minute) Minute) = 1700000040"
  unfolding exampleTime_window
  by (simp_all add: Time_Unix_def Time_Add_def Minute_def Second_def unixToInternal_def)

lemma fmtDigits_numeral:
  "fmtDigits (numeral k) = fmtDigits (numeral k div 10) @ [digitChar (numeral k mod 10)]"
  by (subst fmtDigits.simps) simp

lemma fmtDigits_0: "fmtDigits 0 = []"
  by (subst fmtDigits.simps) simp

lemma fmtDigits_1: "fmtDigits (Suc 0) = ''1''"
  by (simp add: fmtDigits.simps [of "Suc 0"] fmtDigits_0 digitChar_def)

lemma Itoa_examples:
  "Itoa 1699999980 = ''1699999980''"
  "Itoa 1700000040 = ''1700000040''"
  "Itoa 2 = ''2''"
  "Itoa 3 = ''3''"
  by (simp_all add: Itoa_def fmtInt_def fmtDigits_numeral fmtDigits_0 fmtDigits_1 digitChar_def)

text \<open>What a successful increment, and an expiry after it, leave in the store.\<close>

lemma IncrementBy_Inr:
  assumes "IncrementBy cl key delta = (Inr v, cl1)"
  shows "counters cl1 key = Some v"
    and "calls cl1 = calls cl @ [IncrBy key delta]"
    and "expirations cl1 = expirations cl"
    and "failing cl1 = failing cl"
  using assms by (auto simp: IncrementBy_def Let_def split: if_splits)

lemma IncrementBy_Inl:
  assumes "IncrementBy cl key delta = (Inl err, cl1)"
  shows "cl1 = cl\<lparr>calls := calls cl @ [IncrBy key delta]\<rparr>"
  using assms by (auto simp: IncrementBy_def Let_def split: if_splits)

lemma Expire_after_IncrementBy:
  assumes "IncrementBy cl key delta = (Inr v, cl1)"
  shows "snd (Expire cl1 key d) =
         cl1\<lparr>calls := calls cl @ [IncrBy key delta, ExpireKey key d],
             expirations := (if failing cl (Suc (length (calls cl))) then expirations cl
                             else (expirations cl)(key \<mapsto> d))\<rparr>"
  using IncrementBy_Inr [OF assms] by (simp add: Expire_def Let_def)

lemma FixedWindowRateLimit_Done:
  assumes "FixedWindowRateLimit config0 = Done config"
  shows "RedisClient config0 \<noteq> None"
    and "config = config0\<lparr>KeyFunc := Some (case KeyFunc config0 of None \<Rightarrow> DefaultKeyFunc | Some f \<Rightarrow> f),
                          WindowSize := (if WindowSize config0 = 0 then Minute else WindowSize config0)\<rparr>"
  using assms by (auto simp: FixedWindowRateLimit_def Let_def split: if_splits option.splits)

lemma SlidingWindowRateLimit_Done:
  assumes "SlidingWindowRateLimit config0 = Done config"
  shows "RedisClient config0 \<noteq> None"
    and "config = config0\<lparr>KeyFunc := Some (case KeyFunc config0 of None \<Rightarrow> DefaultKeyFunc | Some f \<Rightarrow> f),
                          WindowSize := (if WindowSize config0 = 0 then Minute else WindowSize config0)\<rparr>"
  using assms by (auto simp: SlidingWindowRateLimit_def Let_def split: if_splits option.splits)

lemma FixedWindowRateLimit_windowPolicy: "FixedWindowRateLimit windowPolicy = Done windowCaptured"
  by (simp add: FixedWindowRateLimit_def windowPolicy_def windowCaptured_def)

lemma SlidingWindowRateLimit_windowPolicy: "SlidingWindowRateLimit windowPolicy = Done windowCaptured"
  by (simp add: SlidingWindowRateLimit_def windowPolicy_def windowCaptured_def)

text \<open>
  What the two distributed handlers answer, and what they leave in the store, once
  the increment has returned a count.
\<close>

lemma FixedWindow_handler_counted:
  fixes config :: RateLimitConfig and now :: Time
  defines "W \<equiv> WindowSize config"
  defines "M \<equiv> MaxRequests config"
  defines "window \<equiv> Time_Truncate now W"
  assumes "KeyFunc config = Some keyFunc"
    and "\<not> skipsPath (SkipPaths config) (Path c)"
    and "IncrementBy cl (''ratelimit:'' @ keyFunc c @ '':'' @ Itoa (Time_Unix window)) 1 = (Inr count, cl1)"
  shows "FixedWindow_handler config c now cl =
          (Done \<lparr>headers =
                   [(''X-RateLimit-Limit'', Itoa M),
                    (''X-RateLimit-Remaining'', Itoa (if count > M then 0 else M - count)),
                    (''X-RateLimit-Reset'', FormatInt10 (Time_Unix (Time_Add window W))),
                    (''X-RateLimit-Window'', Duration_String W)],
                 status = (if count > M then Some StatusTooManyRequests else None),
                 body = (if count > M
                         then Some (NewRateLimitedError (int_Seconds (Time_Sub (Time_Add window W) now) + 1))
                         else None),
                 passedOn = (\<not> count > M),
                 aborted = (count > M)\<rparr>,
           if count = 1
           then snd (Expire cl1 (''ratelimit:'' @ keyFunc c @ '':'' @ Itoa (Time_Unix window)) W)
           else cl1)"
  using assms
  by (simp add: FixedWindow_handler_def Let_def c_Header_def c_JSON_def c_Abort_def c_Next_def
        untouched_def)


lemma IncrementBy_first:
  assumes "\<not> failing cl 0" and "counters cl = Map.empty" and "calls cl = []"
  shows "IncrementBy cl key 1 = (Inr 1, cl\<lparr>calls := [IncrBy key 1], counters := [key \<mapsto> 1]\<rparr>)"
  using assms by (simp add: IncrementBy_def)

lemma IncrementBy_emptyClient:
  "IncrementBy emptyClient key 1 =
     (Inr 1, emptyClient\<lparr>calls := [IncrBy key 1], counters := [key \<mapsto> 1]\<rparr>)"
  by (rule IncrementBy_first) (simp_all add: emptyClient_def)


lemma IncrementBy_downClient:
  "IncrementBy downClient key 1 =
     (Inl ''failed to increment by'', downClient\<lparr>calls := [IncrBy key 1]\<rparr>)"
  by (simp add: IncrementBy_def downClient_def)

lemma windowCaptured_simps:
  "KeyFunc windowCaptured = Some DefaultKeyFunc"
  "WindowSize windowCaptured = Minute"
  "MaxRequests windowCaptured = 3"
  "SkipPaths windowCaptured = [''/health'', ''/metrics'']"
  by (simp_all add: windowCaptured_def windowPolicy_def)

lemma exampleKey_eq:
  "''ratelimit:'' @ DefaultKeyFunc exampleRequest @ '':'' @
     Itoa (Time_Unix (Time_Truncate exampleTime Minute)) = exampleKey"
  by (simp add: exampleTime_window_Unix Itoa_examples exampleKey_def DefaultKeyFunc_def
        exampleRequest_def)

section \<open>The distributed limiters: decision, counter and headers\<close>



section \<open>The distributed limiters: store errors\<close>

text \<open>
  Claim C3. When the increment call of a request returns an error, both distributed
  handlers pass the request on to the next handler: nothing is rejected, no header is
  set, no status or body is written, and the store sees the one failed increment and
  nothing else (no retry, no expiry).
\<close>

theorem store_error_fails_open:
  fixes config :: RateLimitConfig and now :: Time and c :: Request
    and keyFunc :: "Request \<Rightarrow> string"
  defines "countKey \<equiv> ''ratelimit:'' @ keyFunc c @ '':'' @
                        Itoa (Time_Unix (Time_Truncate now (WindowSize config)))"
  assumes key: "KeyFunc config = Some keyFunc"
    and path: "\<not> skipsPath (SkipPaths config) (Path c)"
    and incr: "IncrementBy cl countKey 1 = (Inl err, cl1)"
  shows "FixedWindow_handler config c now cl = (Done (c_Next untouched), cl1)
       \<and> SlidingWindow_handler config c now cl = (Done (c_Next untouched), cl1)
       \<and> admitted (Done (c_Next untouched))
       \<and> \<not> rejected (Done (c_Next untouched))
       \<and> headers (c_Next untouched) = []
       \<and> status (c_Next untouched) = None
       \<and> body (c_Next untouched) = None
       \<and> cl1 = cl\<lparr>calls := calls cl @ [IncrBy countKey 1]\<rparr>"
proof -
  have fixed: "FixedWindow_handler config c now cl = (Done (c_Next untouched), cl1)"
    using key path incr by (simp add: FixedWindow_handler_def countKey_def)
  have sliding: "SlidingWindow_handler config c now cl = (Done (c_Next untouched), cl1)"
    using key path incr by (simp add: SlidingWindow_handler_def countKey_def)
  have answer: "admitted (Done (c_Next untouched))" "\<not> rejected (Done (c_Next untouched))"
    "headers (c_Next untouched) = []" "status (c_Next untouched) = None"
    "body (c_Next untouched) = None"
    by (simp_all add: admitted_def rejected_def c_Next_def untouched_def)
  show ?thesis
    using fixed sliding answer IncrementBy_Inl [OF incr] by (simp only: simp_thms)
qed

theorem store_error_fails_open_witness:
  "FixedWindow_handler windowCaptured exampleRequest exampleTime downClient =
     (Done (c_Next untouched), downClient\<lparr>calls := [IncrBy exampleKey 1]\<rparr>)
   \<and> SlidingWindow_handler windowCaptured exampleRequest exampleTime downClient =
     (Done (c_Next untouched), downClient\<lparr>calls := [IncrBy exampleKey 1]\<rparr>)
   \<and> headers (c_Next untouched) = []"
proof -
  have path: "\<not> skipsPath (SkipPaths windowCaptured) (Path exampleRequest)"
    by (simp add: windowCaptured_simps exampleRequest_def)
  have incr: "IncrementBy downClient
                (''ratelimit:'' @ DefaultKeyFunc exampleRequest @ '':'' @
                 Itoa (Time_Unix (Time_Truncate exampleTime (WindowSize windowCaptured)))) 1 =
              (Inl ''failed to increment by'', downClient\<lparr>calls := [IncrBy exampleKey 1]\<rparr>)"
    by (simp only: windowCaptured_simps exampleKey_eq IncrementBy_downClient)
  show ?thesis
    using store_error_fails_open [OF windowCaptured_simps(1) path incr]
    by (simp only: simp_thms)
qed

section \<open>The two distributed limiters are one algorithm\<close>

text \<open>
  Claim C8. The sliding-window and the fixed-window limiter behave alike. Their
  constructors accept the same configurations and capture the same values, and on
  every captured configuration, request, time and store state the two handlers give
  the same answer (decision, headers, status and body) and leave the same store state
  (counter key, counter, expiry, calls).
\<close>

theorem sliding_window_is_fixed_window:
  "SlidingWindow_handler config c now cl = FixedWindow_handler config c now cl
   \<and> (case (SlidingWindowRateLimit config, FixedWindowRateLimit config) of
        (Done s, Done f) \<Rightarrow> s = f
      | (Panic ms, Panic mf) \<Rightarrow> True
      | (Done s, Panic mf) \<Rightarrow> False
      | (Panic ms, Done f) \<Rightarrow> False)"
  by (simp add: SlidingWindow_handler_def FixedWindow_handler_def SlidingWindowRateLimit_def
        FixedWindowRateLimit_def Let_def)

theorem sliding_window_is_fixed_window_witness:
  "SlidingWindow_handler windowCaptured exampleRequest exampleTime emptyClient =
   FixedWindow_handler windowCaptured exampleRequest exampleTime emptyClient
   \<and> SlidingWindowRateLimit windowPolicy = Done windowCaptured
   \<and> FixedWindowRateLimit windowPolicy = Done windowCaptured"
  using sliding_window_is_fixed_window [of windowCaptured exampleRequest exampleTime emptyClient]
  by (simp add: SlidingWindowRateLimit_windowPolicy FixedWindowRateLimit_windowPolicy)

section \<open>The default window\<close>

text \<open>
  Claim C10. A configuration whose \<^verbatim>\<open>WindowSize\<close> is zero gives, in both distributed
  limiters, a window of one minute: the captured window size is a minute, the counter
  key carries the Unix time of the start of the current minute (the multiple of a
  minute at or before the current time, less than a minute away from it), the expiry
  asked for a new counter is a minute (and is in the store when that call got
  through), the reset header is the end of that minute and the window header reads
  \<^verbatim>\<open>1m0s\<close>.
\<close>

theorem zero_window_is_one_minute:
  fixes config0 :: RateLimitConfig and now :: Time and c :: Request
    and keyFunc :: "Request \<Rightarrow> string"
  defines "window \<equiv> Time_Truncate now Minute"
  defines "countKey \<equiv> ''ratelimit:'' @ keyFunc c @ '':'' @ Itoa (Time_Unix window)"
  assumes zero: "WindowSize config0 = 0"
    and sliding: "SlidingWindowRateLimit config0 = Done s"
    and fixed: "FixedWindowRateLimit config0 = Done f"
    and key: "KeyFunc f = Some keyFunc"
    and path: "\<not> skipsPath (SkipPaths f) (Path c)"
    and incr: "IncrementBy cl countKey 1 = (Inr count, cl1)"
  shows "WindowSize s = Minute \<and> WindowSize f = Minute
       \<and> Minute dvd window \<and> window \<le> now \<and> now < window + Minute
       \<and> SlidingWindow_handler s c now cl = FixedWindow_handler f c now cl
       \<and> (case FixedWindow_handler f c now cl of
            (Panic msg, cl2) \<Rightarrow> False
          | (Done r, cl2) \<Rightarrow>
              calls cl2 = calls cl @ IncrBy countKey 1 # (if count = 1 then [ExpireKey countKey Minute] else [])
            \<and> expirations cl2 =
                (if count = 1 \<and> \<not> failing cl (Suc (length (calls cl)))
                 then (expirations cl)(countKey \<mapsto> Minute) else expirations cl)
            \<and> map_of (headers r) ''X-RateLimit-Reset'' = Some (FormatInt10 (Time_Unix (window + Minute)))
            \<and> map_of (headers r) ''X-RateLimit-Window'' = Some ''1m0s'')"
proof -
  have wf: "WindowSize f = Minute"
    using FixedWindowRateLimit_Done(2) [OF fixed] zero by simp
  have ws: "WindowSize s = Minute"
    using SlidingWindowRateLimit_Done(2) [OF sliding] zero by simp
  have same: "s = f"
    using FixedWindowRateLimit_Done(2) [OF fixed] SlidingWindowRateLimit_Done(2) [OF sliding]
    by simp
  have "0 < Minute"
    by (simp add: Minute_def Second_def)
  then have start: "Minute dvd window" "window \<le> now" "now < window + Minute"
    unfolding window_def by (rule Time_Truncate_window)+
  have incr': "IncrementBy cl (''ratelimit:'' @ keyFunc c @ '':'' @
                 Itoa (Time_Unix (Time_Truncate now (WindowSize f)))) 1 = (Inr count, cl1)"
    using incr by (simp only: wf countKey_def window_def)
  define cl2 where "cl2 = (if count = 1 then snd (Expire cl1 countKey Minute) else cl1)"
  obtain r where run: "FixedWindow_handler f c now cl = (Done r, cl2)"
    and hdrs: "headers r =
        [(''X-RateLimit-Limit'', Itoa (MaxRequests f)),
         (''X-RateLimit-Remaining'',
            Itoa (if count > MaxRequests f then 0 else MaxRequests f - count)),
         (''X-RateLimit-Reset'', FormatInt10 (Time_Unix (window + Minute))),
         (''X-RateLimit-Window'', Duration_String Minute)]"
    using FixedWindow_handler_counted [OF key path incr']
    by (simp add: wf cl2_def countKey_def window_def Time_Add_def)
  have trace: "calls cl2 = calls cl @ IncrBy countKey 1 # (if count = 1 then [ExpireKey countKey Minute] else [])"
    using IncrementBy_Inr(2) [OF incr] by (simp add: cl2_def Expire_after_IncrementBy [OF incr])
  have expiry: "expirations cl2 =
                  (if count = 1 \<and> \<not> failing cl (Suc (length (calls cl)))
                   then (expirations cl)(countKey \<mapsto> Minute) else expirations cl)"
    using IncrementBy_Inr(3) [OF incr] by (simp add: cl2_def Expire_after_IncrementBy [OF incr])
  have reset: "map_of (headers r) ''X-RateLimit-Reset'' = Some (FormatInt10 (Time_Unix (window + Minute)))"
    by (simp add: hdrs)
  have win: "map_of (headers r) ''X-RateLimit-Window'' = Some ''1m0s''"
    by (simp add: hdrs Duration_String_Minute)
  have both: "SlidingWindow_handler s c now cl = FixedWindow_handler f c now cl"
    by (simp add: same SlidingWindow_handler_def FixedWindow_handler_def)
  show ?thesis
    using start
    by (simp only: ws wf both run prod.case result.case trace expiry reset win simp_thms)
qed

theorem zero_window_is_one_minute_witness:
  "WindowSize windowPolicy = 0
   \<and> SlidingWindowRateLimit windowPolicy = Done windowCaptured
   \<and> FixedWindowRateLimit windowPolicy = Done windowCaptured
   \<and> WindowSize windowCaptured = 60000000000
   \<and> Time_Truncate exampleTime 60000000000 = exampleTime - 50 * Second
   \<and> (case FixedWindow_handler windowCaptured exampleRequest exampleTime emptyClient of
        (Panic msg, cl2) \<Rightarrow> False
      | (Done r, cl2) \<Rightarrow>
          calls cl2 = [IncrBy ''ratelimit:1.2.3.4:1699999980'' 1,
                       ExpireKey ''ratelimit:1.2.3.4:1699999980'' 60000000000]
        \<and> expirations cl2 ''ratelimit:1.2.3.4:1699999980'' = Some 60000000000
        \<and> map_of (headers r) ''X-RateLimit-Reset'' = Some ''1700000040''
        \<and> map_of (headers r) ''X-RateLimit-Window'' = Some ''1m0s'')"
proof -
  have zero: "WindowSize windowPolicy = 0"
    by (simp add: windowPolicy_def)
  have path: "\<not> skipsPath (SkipPaths windowCaptured) (Path exampleRequest)"
    by (simp add: windowCaptured_simps exampleRequest_def)
  have incr: "IncrementBy emptyClient
                (''ratelimit:'' @ DefaultKeyFunc exampleRequest @ '':'' @
                 Itoa (Time_Unix (Time_Truncate exampleTime Minute))) 1 =
              (Inr 1, emptyClient\<lparr>calls := [IncrBy exampleKey 1],
                                  counters := [exampleKey \<mapsto> 1]\<rparr>)"
    by (simp only: exampleKey_eq IncrementBy_emptyClient)
  have end_of_minute: "FormatInt10 (Time_Unix (Time_Truncate exampleTime Minute + Minute)) =
                         ''1700000040''"
    using exampleTime_window_Unix(2) by (simp add: FormatInt10_def Itoa_examples Time_Add_def)
  note fact = zero_window_is_one_minute [OF zero SlidingWindowRateLimit_windowPolicy
      FixedWindowRateLimit_windowPolicy windowCaptured_simps(1) path incr,
      unfolded exampleKey_eq end_of_minute]
  have handler: "case FixedWindow_handler windowCaptured exampleRequest exampleTime emptyClient of
        (Panic msg, cl2) \<Rightarrow> False
      | (Done r, cl2) \<Rightarrow>
          calls cl2 = [IncrBy exampleKey 1, ExpireKey exampleKey Minute]
        \<and> expirations cl2 exampleKey = Some Minute
        \<and> map_of (headers r) ''X-RateLimit-Reset'' = Some ''1700000040''
        \<and> map_of (headers r) ''X-RateLimit-Window'' = Some ''1m0s''"
    using fact by (simp add: emptyClient_def split: prod.splits result.splits)
  have start: "Time_Truncate exampleTime Minute = exampleTime - 50 * Second"
    by (simp add: exampleTime_window) (simp add: exampleTime_def Second_def unixToInternal_def)
  have minute: "Minute = 60000000000"
    by (simp add: Minute_def Second_def)
  show ?thesis
    using zero SlidingWindowRateLimit_windowPolicy FixedWindowRateLimit_windowPolicy
      windowCaptured_simps(2) handler start
    unfolding exampleKey_def minute by (simp only: simp_thms)
qed

section \<open>Exempt paths\<close>

text \<open>
  A request whose path equals an entry of \<^verbatim>\<open>SkipPaths\<close> is passed on by every limiter
  that was constructed, whatever went before: the token-bucket handler leaves its map
  of limiters as it was, the sliding-window and fixed-window handlers leave the store
  as it was (no call is made), no header, status or body is written. The handler that
  selects a limit by user type does the same with the paths of the configuration it
  selects for the request, provided the limiter of that configuration can be
  constructed (a distributed one has its store).
\<close>

lemma skip_paths_bypass:
  assumes exempt: "Path c \<in> set (SkipPaths config)"
  shows "TokenBucket_handler (fst (TokenBucketRateLimit config)) c clock limiters =
           (Done (c_Next untouched), limiters)
       \<and> (\<forall>s. SlidingWindowRateLimit config = Done s \<longrightarrow>
              SlidingWindow_handler s c now cl = (Done (c_Next untouched), cl))
       \<and> (\<forall>f. FixedWindowRateLimit config = Done f \<longrightarrow>
              FixedWindow_handler f c now cl = (Done (c_Next untouched), cl))
       \<and> (selectConfig policies defaultConfig c = config
            \<and> (UseRedis config \<longrightarrow> RedisClient config \<noteq> None) \<longrightarrow>
              PerUser_handler policies defaultConfig c clock cl = (Done (c_Next untouched), cl))
       \<and> admitted (Done (c_Next untouched))
       \<and> headers (c_Next untouched) = []
       \<and> status (c_Next untouched) = None
       \<and> body (c_Next untouched) = None"
proof -
  have skip: "skipsPath (SkipPaths config) (Path c)"
    using exempt by (simp add: skipsPath_iff)
  have bucket_paths: "SkipPaths (fst (TokenBucketRateLimit config)) = SkipPaths config"
    by (simp add: TokenBucketRateLimit_def Let_def)
  have bucket: "TokenBucket_handler (fst (TokenBucketRateLimit config)) c clock limiters =
                  (Done (c_Next untouched), limiters)" for clock limiters
    using skip by (simp add: TokenBucket_handler_def bucket_paths)
  have sliding: "SlidingWindow_handler s c now cl = (Done (c_Next untouched), cl)"
    if "SlidingWindowRateLimit config = Done s" for s
    using skip SlidingWindowRateLimit_Done(2) [OF that]
    by (simp add: SlidingWindow_handler_def)
  have fixed: "FixedWindow_handler f c now cl = (Done (c_Next untouched), cl)"
    if "FixedWindowRateLimit config = Done f" for f now
    using skip FixedWindowRateLimit_Done(2) [OF that]
    by (simp add: FixedWindow_handler_def)
  have per_user: "PerUser_handler policies defaultConfig c clock cl = (Done (c_Next untouched), cl)"
    if sel: "selectConfig policies defaultConfig c = config"
      and store: "UseRedis config \<longrightarrow> RedisClient config \<noteq> None"
  proof (cases "UseRedis config")
    case True
    then obtain f where f: "FixedWindowRateLimit config = Done f"
      using store by (auto simp: FixedWindowRateLimit_def Let_def)
    show ?thesis
      using True f fixed [OF f] by (simp add: PerUser_handler_def sel)
  next
    case False
    have fresh: "snd (TokenBucketRateLimit config) = Map.empty"
      by (simp add: TokenBucketRateLimit_def Let_def)
    show ?thesis
      using False bucket [of clock Map.empty]
      by (simp add: PerUser_handler_def sel split_beta fresh)
  qed
  have answer: "admitted (Done (c_Next untouched))" "headers (c_Next untouched) = []"
    "status (c_Next untouched) = None" "body (c_Next untouched) = None"
    by (simp_all add: admitted_def c_Next_def untouched_def)
  show ?thesis
    using bucket sliding fixed per_user answer by blast
qed

lemma skip_paths_bypass_example:
  "TokenBucket_handler (fst (TokenBucketRateLimit windowPolicy)) healthRequest
     (frozenClock exampleTime) Map.empty = (Done (c_Next untouched), Map.empty)
   \<and> SlidingWindow_handler windowCaptured healthRequest exampleTime emptyClient =
       (Done (c_Next untouched), emptyClient)
   \<and> FixedWindow_handler windowCaptured healthRequest exampleTime emptyClient =
       (Done (c_Next untouched), emptyClient)
   \<and> PerUser_handler Map.empty windowPolicy healthRequest (frozenClock exampleTime) emptyClient =
       (Done (c_Next untouched), emptyClient)
   \<and> calls emptyClient = []"
proof -
  have exempt: "Path healthRequest \<in> set (SkipPaths windowPolicy)"
    by (simp add: healthRequest_def exampleRequest_def windowPolicy_def)
  have sel: "selectConfig Map.empty windowPolicy healthRequest = windowPolicy"
    by (simp add: selectConfig_def GetClaimsFromContext_def healthRequest_def exampleRequest_def
          zeroConfig_def)
  have store: "UseRedis windowPolicy \<longrightarrow> RedisClient windowPolicy \<noteq> None"
    by (simp add: windowPolicy_def)
  show ?thesis
    using skip_paths_bypass [OF exempt, of "frozenClock exampleTime" Map.empty exampleTime
        emptyClient Map.empty windowPolicy]
      sel store SlidingWindowRateLimit_windowPolicy FixedWindowRateLimit_windowPolicy
    by (simp add: emptyClient_def)
qed

section \<open>The token bucket at work\<close>

lemmas limiter_defs =
  Allow_def Reserve_def Delay_def reserveN_def advance_def tokensFromDuration_def
  durationFromTokens_def NewLimiter_def Time_Sub_def Time_Add_def InfDuration_def
  maxDuration_def minDuration_def Second_def truncRat_def

lemmas response_defs =
  c_Header_def c_Next_def c_JSON_def c_Abort_def untouched_def

lemma bucketCaptured_simps:
  "KeyFunc bucketCaptured = Some DefaultKeyFunc"
  "SkipPaths bucketCaptured = [''/health'']"
  "RequestsPerSecond bucketCaptured = 1"
  "BurstSize bucketCaptured = 1"
  "KeyFunc burstTwoCaptured = Some DefaultKeyFunc"
  "SkipPaths burstTwoCaptured = [''/health'']"
  "RequestsPerSecond burstTwoCaptured = 1"
  "BurstSize burstTwoCaptured = 2"
  by (simp_all add: bucketCaptured_def burstTwoCaptured_def bucketPolicy_def)

lemma TokenBucketRateLimit_bucketPolicy:
  "TokenBucketRateLimit bucketPolicy = (bucketCaptured, Map.empty)"
  by (simp add: TokenBucketRateLimit_def bucketPolicy_def bucketCaptured_def)

text \<open>A new limiter with a burst of at least one grants its first request.\<close>

lemma Allow_NewLimiter:
  assumes "1 \<le> b"
  shows "fst (Allow (NewLimiter r b) t)"
proof -
  define delta where
    "delta = tokensFromDuration r (Time_Sub t (if t < 0 then t else 0))"
  have "0 \<le> Time_Sub t (if t < 0 then t else 0)"
    by (simp add: Time_Sub_def maxDuration_def minDuration_def Let_def)
  then have delta: "0 \<le> delta"
    by (simp add: delta_def tokensFromDuration_def Second_def)
  have cap: "(if of_int b + delta > of_int b then of_int b else of_int b + delta) = (of_int b :: rat)"
    using delta by (cases "0 < delta") auto
  have "advance (NewLimiter r b) t =
          (t, if of_int b + delta > of_int b then of_int b else of_int b + delta)"
    unfolding delta_def by (simp add: advance_def NewLimiter_def Let_def)
  then have adv: "advance (NewLimiter r b) t = (t, of_int b)"
    by (simp only: cap)
  have "(0::rat) \<le> of_int b - 1"
    using assms by (metis diff_ge_0_iff_ge of_int_1 of_int_le_iff)
  moreover have "burst (NewLimiter r b) = b"
    by (simp add: NewLimiter_def)
  ultimately show ?thesis
    using assms by (simp add: Allow_def reserveN_def adv Let_def split_beta)
qed

lemma TokenBucket_fresh_admits:
  assumes "1 \<le> BurstSize config"
  shows "admitted (fst (TokenBucket_handler (fst (TokenBucketRateLimit config)) c clock Map.empty))"
proof -
  define captured where "captured = fst (TokenBucketRateLimit config)"
  obtain keyFunc where key: "KeyFunc captured = Some keyFunc"
    by (cases "KeyFunc config") (simp_all add: captured_def TokenBucketRateLimit_def Let_def)
  have burst: "BurstSize captured = BurstSize config"
    by (simp add: captured_def TokenBucketRateLimit_def Let_def)
  have "fst (Allow (NewLimiter (of_int (RequestsPerSecond captured)) (BurstSize captured)) (clock 0))"
    using assms by (simp add: burst Allow_NewLimiter)
  then show ?thesis
    unfolding captured_def [symmetric]
    by (simp add: TokenBucket_handler_def key Let_def split_beta admitted_def response_defs)
qed

text \<open>
  The handler that selects by user type builds the token-bucket middleware anew for
  each request, so each request meets a full bucket.
\<close>

lemma per_user_in_process_admits:
  assumes "\<not> UseRedis (selectConfig policies defaultConfig c)"
    and "1 \<le> BurstSize (selectConfig policies defaultConfig c)"
  shows "admitted (fst (PerUser_handler policies defaultConfig c clock cl))"
    and "snd (PerUser_handler policies defaultConfig c clock cl) = cl"
proof -
  have fresh: "snd (TokenBucketRateLimit config) = Map.empty" for config
    by (simp add: TokenBucketRateLimit_def Let_def)
  show "admitted (fst (PerUser_handler policies defaultConfig c clock cl))"
    using assms(1) TokenBucket_fresh_admits [OF assms(2), of c clock]
    by (simp add: PerUser_handler_def Let_def split_beta fresh)
  show "snd (PerUser_handler policies defaultConfig c clock cl) = cl"
    using assms(1) by (simp add: PerUser_handler_def Let_def split_beta)
qed

lemma selectConfig_no_claims:
  "ctxClaims c = None \<Longrightarrow> selectConfig policies defaultConfig c = defaultConfig"
  by (simp add: selectConfig_def GetClaimsFromContext_def zeroConfig_def)

section \<open>Limits by user type: the bucket is not kept\<close>

text \<open>
  Claim C2 says that requests dispatched by user type to an in-process policy share
  one bucket per key, so that with a burst of \<open>B\<close> the request number \<open>B + 1\<close> of an
  instant is rejected. The handler does not do this. With one request per second and
  a burst of one, two requests of the same client at the same instant are both
  admitted, where the token-bucket middleware used directly rejects the second.
\<close>

theorem per_user_bucket_is_rebuilt_each_request:
  "map admitted
     (PerUser_run Map.empty bucketPolicy
        [(exampleRequest, frozenClock exampleTime),
         (exampleRequest, frozenClock exampleTime)] emptyClient) = [True, True]
   \<and> TokenBucketRateLimit bucketPolicy = (bucketCaptured, Map.empty)
   \<and> map admitted
       (TokenBucket_run bucketCaptured
          [(exampleRequest, frozenClock exampleTime),
           (exampleRequest, frozenClock exampleTime)] Map.empty) = [True, False]"
proof -
  have sel: "selectConfig Map.empty bucketPolicy exampleRequest = bucketPolicy"
    by (simp add: selectConfig_no_claims exampleRequest_def)
  have mode: "\<not> UseRedis (selectConfig Map.empty bucketPolicy exampleRequest)"
    and burst: "1 \<le> BurstSize (selectConfig Map.empty bucketPolicy exampleRequest)"
    unfolding sel by (simp_all add: bucketPolicy_def)
  note step = per_user_in_process_admits [OF mode burst]
  have per_user: "map admitted
     (PerUser_run Map.empty bucketPolicy
        [(exampleRequest, frozenClock exampleTime),
         (exampleRequest, frozenClock exampleTime)] emptyClient) = [True, True]"
    by (simp add: split_beta step)
  have direct: "map admitted
       (TokenBucket_run bucketCaptured
          [(exampleRequest, frozenClock exampleTime),
           (exampleRequest, frozenClock exampleTime)] Map.empty) = [True, False]"
    by (simp add: TokenBucket_handler_def bucketCaptured_simps exampleRequest_def
          DefaultKeyFunc_def frozenClock_def Let_def limiter_defs exampleTime_def
          unixToInternal_def admitted_def response_defs)
  show ?thesis
    using per_user direct TokenBucketRateLimit_bucketPolicy by (simp only: simp_thms)
qed

section \<open>Limits by user type: a missing store\<close>

text \<open>
  Claim C4 says that a distributed configuration without a store is refused when the
  middleware is constructed, and never at request time. That holds for the
  sliding-window and fixed-window constructors, which panic. It fails for the handler
  that selects by user type: its constructor accepts such a configuration, and the
  panic of the fixed-window constructor is raised while a request is served.
\<close>

theorem per_user_missing_store_panics_per_request:
  "SlidingWindowRateLimit storelessPolicy =
     Panic ''Redis client is required for sliding window rate limiting''
   \<and> FixedWindowRateLimit storelessPolicy =
     Panic ''Redis client is required for fixed window rate limiting''
   \<and> UseRedis storelessPolicy
   \<and> RedisClient storelessPolicy = None
   \<and> PerUserRateLimit Map.empty storelessPolicy = Done (Map.empty, storelessPolicy)
   \<and> PerUser_handler Map.empty storelessPolicy exampleRequest (frozenClock exampleTime)
       emptyClient =
     (Panic ''Redis client is required for fixed window rate limiting'', emptyClient)"
proof -
  have sel: "selectConfig Map.empty storelessPolicy exampleRequest = storelessPolicy"
    by (simp add: selectConfig_no_claims exampleRequest_def)
  have fields: "UseRedis storelessPolicy" "RedisClient storelessPolicy = None"
    by (simp_all add: storelessPolicy_def windowPolicy_def)
  have sliding: "SlidingWindowRateLimit storelessPolicy =
      Panic ''Redis client is required for sliding window rate limiting''"
    by (simp add: SlidingWindowRateLimit_def fields)
  have fixed: "FixedWindowRateLimit storelessPolicy =
      Panic ''Redis client is required for fixed window rate limiting''"
    by (simp add: FixedWindowRateLimit_def fields)
  have handler: "PerUser_handler Map.empty storelessPolicy exampleRequest
       (frozenClock exampleTime) emptyClient =
     (Panic ''Redis client is required for fixed window rate limiting'', emptyClient)"
    by (simp add: PerUser_handler_def sel fields fixed)
  show ?thesis
    using sliding fixed fields handler by (simp add: PerUserRateLimit_def)
qed

section \<open>Limits by user type: which policy is applied\<close>

text \<open>The loop over the roles returns the policy of the first role that has one.\<close>

lemma rolesLoop_first:
  "rolesLoop config roles z =
     (case List.find (\<lambda>role. config role \<noteq> None) roles of
        None \<Rightarrow> z
      | Some role \<Rightarrow> (case config role of Some cfg \<Rightarrow> cfg | None \<Rightarrow> z))"
  by (induction roles) (auto split: option.splits)

text \<open>
  Claim C6 says that the policy of the first role with a configured policy is
  selected, and the default if and only if no role has one. The handler replaces the
  selection by the default whenever its \<^verbatim>\<open>MaxRequests\<close> is zero, which it takes as the
  sign that nothing was found. A caller with the roles viewer and admin, where admin
  has an in-process policy (100 requests per second, burst 200, \<^verbatim>\<open>MaxRequests\<close> not
  set), is given the default policy of one request per second.
\<close>

theorem per_user_matched_policy_replaced_by_default:
  "GetClaimsFromContext adminRequest = Some \<lparr>Roles = [''viewer'', ''admin'']\<rparr>
   \<and> rolesLoop [''admin'' \<mapsto> adminPolicy] [''viewer'', ''admin''] zeroConfig = adminPolicy
   \<and> RequestsPerSecond adminPolicy = 100
   \<and> BurstSize adminPolicy = 200
   \<and> MaxRequests adminPolicy = 0
   \<and> selectConfig [''admin'' \<mapsto> adminPolicy] bucketPolicy adminRequest = bucketPolicy
   \<and> RequestsPerSecond bucketPolicy = 1
   \<and> BurstSize bucketPolicy = 1"
proof -
  have claims: "GetClaimsFromContext adminRequest = Some \<lparr>Roles = [''viewer'', ''admin'']\<rparr>"
    by (simp add: GetClaimsFromContext_def adminRequest_def)
  have loop: "rolesLoop [''admin'' \<mapsto> adminPolicy] [''viewer'', ''admin''] zeroConfig = adminPolicy"
    by simp
  have admin: "RequestsPerSecond adminPolicy = 100" "BurstSize adminPolicy = 200"
    "MaxRequests adminPolicy = 0"
    by (simp_all add: adminPolicy_def bucketPolicy_def)
  have dflt: "RequestsPerSecond bucketPolicy = 1" "BurstSize bucketPolicy = 1"
    by (simp_all add: bucketPolicy_def)
  have sel: "selectConfig [''admin'' \<mapsto> adminPolicy] bucketPolicy adminRequest = bucketPolicy"
    by (simp add: selectConfig_def claims loop admin Let_def)
  show ?thesis
    using claims loop admin dflt sel by (simp only: simp_thms)
qed

section \<open>The in-process limiter: what a rejection costs\<close>

text \<open>
  Claim C5 says that with a burst of \<open>B\<close> and \<open>R\<close> requests per second a new key has
  \<open>B\<close> requests of one instant admitted, the next rejected, and one more admitted
  after \<open>1 / R\<close> seconds. The first two parts hold; the third does not. To compute
  \<^verbatim>\<open>retryAfter\<close> the handler calls \<^verbatim>\<open>limiter.Reserve()\<close> on every rejected request, which
  takes a token from the limiter and is never cancelled, so that the rejected request
  uses up the token that the wait would have earned. With a burst of two and one
  request per second: three requests at one instant and a fourth a second later are
  admitted, admitted, rejected and rejected.
\<close>

theorem token_bucket_rejection_takes_the_next_token:
  "fst (TokenBucketRateLimit (bucketPolicy\<lparr>BurstSize := 2\<rparr>)) = burstTwoCaptured
   \<and> map admitted
       (TokenBucket_run burstTwoCaptured
          [(exampleRequest, frozenClock exampleTime),
           (exampleRequest, frozenClock exampleTime),
           (exampleRequest, frozenClock exampleTime),
           (exampleRequest, frozenClock (exampleTime + Second))] Map.empty)
     = [True, True, False, False]
   \<and> map rejected
       (TokenBucket_run burstTwoCaptured
          [(exampleRequest, frozenClock exampleTime),
           (exampleRequest, frozenClock exampleTime),
           (exampleRequest, frozenClock exampleTime),
           (exampleRequest, frozenClock (exampleTime + Second))] Map.empty)
     = [False, False, True, True]"
proof -
  have captured: "fst (TokenBucketRateLimit (bucketPolicy\<lparr>BurstSize := 2\<rparr>)) = burstTwoCaptured"
    by (simp add: TokenBucketRateLimit_def bucketPolicy_def bucketCaptured_def
          burstTwoCaptured_def)
  have adm: "map admitted
       (TokenBucket_run burstTwoCaptured
          [(exampleRequest, frozenClock exampleTime),
           (exampleRequest, frozenClock exampleTime),
           (exampleRequest, frozenClock exampleTime),
           (exampleRequest, frozenClock (exampleTime + Second))] Map.empty)
     = [True, True, False, False]"
    by (simp add: TokenBucket_handler_def bucketCaptured_simps exampleRequest_def
          DefaultKeyFunc_def frozenClock_def Let_def limiter_defs exampleTime_def
          unixToInternal_def admitted_def response_defs)
  have rej: "map rejected
       (TokenBucket_run burstTwoCaptured
          [(exampleRequest, frozenClock exampleTime),
           (exampleRequest, frozenClock exampleTime),
           (exampleRequest, frozenClock exampleTime),
           (exampleRequest, frozenClock (exampleTime + Second))] Map.empty)
     = [False, False, True, True]"
    by (simp add: TokenBucket_handler_def bucketCaptured_simps exampleRequest_def
          DefaultKeyFunc_def frozenClock_def Let_def limiter_defs exampleTime_def
          unixToInternal_def rejected_def response_defs)
  show ?thesis
    using captured adm rej by (simp only: simp_thms)
qed

section \<open>The retry guidance of a rejection\<close>

text \<open>
  In the distributed limiters a negative window is kept as it is, and then the
  rejection carries a \<^verbatim>\<open>retryAfter\<close> below one.
\<close>

lemma negative_window_retry_after:
  "fst (FixedWindow_handler negativeWindowCaptured exampleRequest exampleTime emptyClient) =
     Done \<lparr>headers =
             [(''X-RateLimit-Limit'', Itoa 0),
              (''X-RateLimit-Remaining'', Itoa 0),
              (''X-RateLimit-Reset'', FormatInt10 (Time_Unix (exampleTime - 5 * Second))),
              (''X-RateLimit-Window'', Duration_String (- (5 * Second)))],
           status = Some StatusTooManyRequests,
           body = Some (NewRateLimitedError (- 4)),
           passedOn = False, aborted = True\<rparr>"
proof -
  have fields: "KeyFunc negativeWindowCaptured = Some DefaultKeyFunc"
    "WindowSize negativeWindowCaptured = - (5 * Second)"
    "MaxRequests negativeWindowCaptured = 0"
    "SkipPaths negativeWindowCaptured = [''/health'', ''/metrics'']"
    by (simp_all add: negativeWindowCaptured_def windowCaptured_def windowPolicy_def)
  have path: "\<not> skipsPath (SkipPaths negativeWindowCaptured) (Path exampleRequest)"
    by (simp add: fields exampleRequest_def)
  have reset: "Time_Add (Time_Truncate exampleTime (- (5 * Second))) (- (5 * Second)) =
                 exampleTime - 5 * Second"
    by (simp add: Time_Add_def Time_Truncate_def Second_def)
  have retry: "int_Seconds (Time_Sub (exampleTime - 5 * Second) exampleTime) + 1 = - 4"
    by (simp add: int_Seconds_def Time_Sub_def Second_def maxDuration_def minDuration_def)
  note run = FixedWindow_handler_counted [where config = negativeWindowCaptured
      and now = exampleTime and c = exampleRequest and cl = emptyClient,
      OF fields(1) path IncrementBy_emptyClient]
  show ?thesis
    by (simp add: run fields reset retry)
qed

text \<open>
  Claim C9 says that the \<^verbatim>\<open>retryAfter\<close> of a rejection is at least one and agrees,
  within rounding, with the reset header of the same response. In the token bucket the
  reset header is always the next second, while \<^verbatim>\<open>retryAfter\<close> comes from the
  reservation that each rejection adds to the limiter's debt. With one request per
  second and a burst of one, the fifth request of an instant is rejected with a reset
  one second ahead and a \<^verbatim>\<open>retryAfter\<close> of five seconds.
\<close>

theorem token_bucket_retry_after_outruns_reset:
  "last (TokenBucket_run bucketCaptured
          [(exampleRequest, frozenClock exampleTime),
           (exampleRequest, frozenClock exampleTime),
           (exampleRequest, frozenClock exampleTime),
           (exampleRequest, frozenClock exampleTime),
           (exampleRequest, frozenClock exampleTime)] Map.empty) =
     Done \<lparr>headers =
             [(''X-RateLimit-Limit'', Itoa 1),
              (''X-RateLimit-Remaining'', ''0''),
              (''X-RateLimit-Reset'', FormatInt10 (Time_Unix exampleTime + 1))],
           status = Some StatusTooManyRequests,
           body = Some (NewRateLimitedError 5),
           passedOn = False, aborted = True\<rparr>"
  by (simp add: TokenBucket_handler_def bucketCaptured_simps exampleRequest_def
        DefaultKeyFunc_def frozenClock_def Let_def limiter_defs exampleTime_def
        unixToInternal_def response_defs int_Seconds_def Time_Unix_def)

section \<open>Exempt paths and a missing store\<close>

text \<open>
  Claim C7 says that a request whose path equals an entry of \<^verbatim>\<open>SkipPaths\<close> is admitted
  by every limiter variant, with no counter read or written and no header set. The
  handler that selects by user type constructs the fixed-window limiter of the
  selected policy before any path is looked at, so with a distributed policy that has
  no store a request for the exempt path \<^verbatim>\<open>/health\<close> panics instead of being passed on.
  With the store in place the same request is passed on and the store is not touched.
\<close>

theorem per_user_exempt_path_panics_without_store:
  "Path healthRequest \<in> set (SkipPaths storelessPolicy)
   \<and> selectConfig Map.empty storelessPolicy healthRequest = storelessPolicy
   \<and> PerUserRateLimit Map.empty storelessPolicy = Done (Map.empty, storelessPolicy)
   \<and> PerUser_handler Map.empty storelessPolicy healthRequest (frozenClock exampleTime)
       emptyClient =
     (Panic ''Redis client is required for fixed window rate limiting'', emptyClient)
   \<and> \<not> admitted (Panic ''Redis client is required for fixed window rate limiting'')
   \<and> PerUser_handler Map.empty windowPolicy healthRequest (frozenClock exampleTime)
       emptyClient =
     (Done (c_Next untouched), emptyClient)"
proof -
  have exempt: "Path healthRequest \<in> set (SkipPaths storelessPolicy)"
    by (simp add: healthRequest_def exampleRequest_def storelessPolicy_def windowPolicy_def)
  have sel: "selectConfig Map.empty storelessPolicy healthRequest = storelessPolicy"
    by (simp add: selectConfig_no_claims healthRequest_def exampleRequest_def)
  have fields: "UseRedis storelessPolicy" "RedisClient storelessPolicy = None"
    by (simp_all add: storelessPolicy_def windowPolicy_def)
  have fixed: "FixedWindowRateLimit storelessPolicy =
      Panic ''Redis client is required for fixed window rate limiting''"
    by (simp add: FixedWindowRateLimit_def fields)
  have broken: "PerUser_handler Map.empty storelessPolicy healthRequest
       (frozenClock exampleTime) emptyClient =
     (Panic ''Redis client is required for fixed window rate limiting'', emptyClient)"
    by (simp add: PerUser_handler_def sel fields fixed)
  have sel': "selectConfig Map.empty windowPolicy healthRequest = windowPolicy"
    by (simp add: selectConfig_no_claims healthRequest_def exampleRequest_def)
  have skip: "skipsPath (SkipPaths windowCaptured) (Path healthRequest)"
    by (simp add: windowCaptured_simps healthRequest_def exampleRequest_def)
  have sound: "PerUser_handler Map.empty windowPolicy healthRequest (frozenClock exampleTime)
       emptyClient = (Done (c_Next untouched), emptyClient)"
    using skip
    by (simp add: PerUser_handler_def sel' FixedWindowRateLimit_windowPolicy
          FixedWindow_handler_def) (simp add: windowPolicy_def)
  have no: "\<not> admitted (Panic ''Redis client is required for fixed window rate limiting'')"
    by (simp add: admitted_def)
  show ?thesis
    using exempt sel broken sound no by (simp add: PerUserRateLimit_def)
qed

end
